theory Spec2Isabelle
  imports Complex_Main "HOL-Library.Sublist"
begin

section \<open>Values, exceptions and the world the script runs in\<close>

text \<open>
  The script \<^verbatim>\<open>project1.py\<close> has two functions, \<^verbatim>\<open>create_dummy_data\<close> and
  \<^verbatim>\<open>process_and_analyze\<close>, and a main block. A float64 is modelled as a real number or
  NaN (\<open>None\<close>); rounding and infinities are not modelled. A numpy array of floats is a
  list of cells.
\<close>

type_synonym cell = "real option"

type_synonym ndarray = "cell list"

datatype error =
    NameError string
  | KeyError string
  | IndexError nat
  | ValueError string
  | ParserError
  | EmptyDataError
  | FileNotFoundError string
  | OSError string
  | LibraryError string

text \<open>
  A pandas DataFrame: the column names and the rows, every row holding one cell per column.
  The row labels (the index) are not kept: nothing in the script reads them.
\<close>

record DataFrame =
  columns :: "string list"
  rows :: "cell list list"

text \<open>
  A CSV file on disk: the header line as text and one list of fields per non-blank data
  line. A field is a decimal number or empty (\<open>None\<close>); how a float is printed and parsed
  is not modelled.
\<close>

record csv_file =
  header_line :: string
  records :: "cell list list"

text \<open>
  What \<^verbatim>\<open>print\<close> writes: one line per call, as the pieces it is made of. \<open>Fixed v d\<close> is
  the float \<open>v\<close> formatted with \<open>d\<close> decimals, \<open>Shape\<close> the text of a shape tuple, \<open>Obj n\<close>
  the text of the object bound to the global name \<open>n\<close>.
\<close>

datatype piece = Str string | Shape "nat \<times> nat" | Fixed cell nat | Obj string

text \<open>The matplotlib calls of the script, in the order they are issued.\<close>

datatype plot_cmd =
    Figure "nat \<times> nat"
  | Scatter ndarray ndarray string "piece list" real
  | Plot ndarray ndarray string string "piece list"
  | Title string
  | Xlabel string
  | Ylabel string
  | Legend
  | Grid bool string real
  | Tight_layout
  | Show

text \<open>
  The world: the files, the paths that can be opened for writing (the directory of the path
  exists and permits it, and the path is not a directory), the console, the store of
  DataFrame objects (\<open>frames\<close>, addressed by object identity; \<open>next_id\<close> is the first free
  address), the calls made on the current matplotlib figure, and the state of numpy's global
  random generator.
\<close>

record 'g world =
  fs :: "string \<rightharpoonup> csv_file"
  writable :: "string \<Rightarrow> bool"
  console :: "piece list list"
  frames :: "nat \<Rightarrow> DataFrame"
  next_id :: nat
  figure :: "plot_cmd list"
  rng :: 'g

text \<open>
  The numerical routines of numpy that the script calls and whose code is not part of the
  repository: the generator behind \<^verbatim>\<open>np.random\<close> (seeding, and one standard normal draw
  with the successor state) and the statistics. Each statistic may raise.
\<close>

record 'g numpy =
  np_random_seed :: "nat \<Rightarrow> 'g"
  np_random_gauss :: "'g \<Rightarrow> real \<times> 'g"
  np_mean :: "ndarray \<Rightarrow> error + cell"
  np_var :: "ndarray \<Rightarrow> error + cell"
  np_std :: "ndarray \<Rightarrow> error + cell"
  np_corrcoef :: "ndarray \<Rightarrow> ndarray \<Rightarrow> error + cell list list"
  np_polyfit :: "ndarray \<Rightarrow> ndarray \<Rightarrow> nat \<Rightarrow> error + ndarray"

subsection \<open>Statements: a state transformer that returns or raises\<close>

type_synonym ('a, 'g) py = "'g world \<Rightarrow> (error + 'a) \<times> 'g world"

definition return_py :: "'a \<Rightarrow> ('a, 'g) py" where
  "return_py x = (\<lambda>w. (Inr x, w))"

definition raise_py :: "error \<Rightarrow> ('a, 'g) py" where
  "raise_py e = (\<lambda>w. (Inl e, w))"

definition lift_py :: "error + 'a \<Rightarrow> ('a, 'g) py" where
  "lift_py r = (\<lambda>w. (r, w))"

definition bind_py :: "('a, 'g) py \<Rightarrow> ('a \<Rightarrow> ('b, 'g) py) \<Rightarrow> ('b, 'g) py" where
  "bind_py m f = (\<lambda>w. case m w of (Inl e, w') \<Rightarrow> (Inl e, w') | (Inr x, w') \<Rightarrow> f x w')"

definition print_py :: "piece list \<Rightarrow> (unit, 'g) py" where
  "print_py line = (\<lambda>w. (Inr (), w\<lparr>console := console w @ [line]\<rparr>))"

definition plt_call :: "plot_cmd \<Rightarrow> (unit, 'g) py" where
  "plt_call c = (\<lambda>w. (Inr (), w\<lparr>figure := figure w @ [c]\<rparr>))"

definition path_exists :: "'g world \<Rightarrow> string \<Rightarrow> bool" where
  "path_exists w filename = (fs w filename \<noteq> None)"

subsection \<open>Name lookup\<close>

text \<open>
  A name that a function reads and never assigns is looked up in the module's globals and
  then among the builtins. The module's globals are the names bound at the top level of
  \<^verbatim>\<open>project1.py\<close> (imports, the two functions, \<^verbatim>\<open>data_file\<close> of the main block) and the
  names every module has. The builtins are Python's built-in functions and constants; the
  built-in exception classes, all capitalised, are left out.
\<close>

definition module_globals :: "string list" where
  "module_globals =
     [''pd'', ''np'', ''plt'', ''os'', ''create_dummy_data'', ''process_and_analyze'',
      ''data_file'', ''__name__'', ''__doc__'', ''__package__'', ''__loader__'',
      ''__spec__'', ''__file__'', ''__cached__'', ''__builtins__'', ''__annotations__'']"

definition builtin_names :: "string list" where
  "builtin_names =
     [''abs'', ''aiter'', ''all'', ''anext'', ''any'', ''ascii'', ''bin'', ''bool'',
      ''breakpoint'', ''bytearray'', ''bytes'', ''callable'', ''chr'', ''classmethod'',
      ''compile'', ''complex'', ''delattr'', ''dict'', ''dir'', ''divmod'', ''enumerate'',
      ''eval'', ''exec'', ''filter'', ''float'', ''format'', ''frozenset'', ''getattr'',
      ''globals'', ''hasattr'', ''hash'', ''help'', ''hex'', ''id'', ''input'', ''int'',
      ''isinstance'', ''issubclass'', ''iter'', ''len'', ''list'', ''locals'', ''map'',
      ''max'', ''memoryview'', ''min'', ''next'', ''object'', ''oct'', ''open'', ''ord'',
      ''pow'', ''print'', ''property'', ''range'', ''repr'', ''reversed'', ''round'',
      ''set'', ''setattr'', ''slice'', ''sorted'', ''staticmethod'', ''str'', ''sum'',
      ''super'', ''tuple'', ''type'', ''vars'', ''zip'', ''__import__'', ''True'',
      ''False'', ''None'', ''NotImplemented'', ''Ellipsis'', ''__debug__'', ''quit'',
      ''exit'', ''copyright'', ''credits'', ''license'']"

definition load_global :: "string \<Rightarrow> (string, 'g) py" where
  "load_global name =
     (if name \<in> set module_globals \<or> name \<in> set builtin_names
      then return_py name else raise_py (NameError name))"

section \<open>The numpy and pandas operations the script uses\<close>

definition cell_mul :: "cell \<Rightarrow> cell \<Rightarrow> cell" where
  "cell_mul a b = (case (a, b) of (Some x, Some y) \<Rightarrow> Some (x * y) | _ \<Rightarrow> None)"

definition cell_add :: "cell \<Rightarrow> cell \<Rightarrow> cell" where
  "cell_add a b = (case (a, b) of (Some x, Some y) \<Rightarrow> Some (x + y) | _ \<Rightarrow> None)"

definition mul_scalar :: "ndarray \<Rightarrow> cell \<Rightarrow> ndarray" where
  "mul_scalar xs k = map (\<lambda>x. cell_mul x k) xs"

definition add_scalar :: "ndarray \<Rightarrow> cell \<Rightarrow> ndarray" where
  "add_scalar xs k = map (\<lambda>x. cell_add x k) xs"

text \<open>
  \<^verbatim>\<open>a + b\<close> on one-dimensional arrays: elementwise on equal lengths, a length-one operand
  is broadcast, any other pair of shapes raises.
\<close>

definition add_arrays :: "ndarray \<Rightarrow> ndarray \<Rightarrow> error + ndarray" where
  "add_arrays xs ys =
     (if length xs = length ys then Inr (map (\<lambda>(x, y). cell_add x y) (zip xs ys))
      else if length xs = 1 then Inr (add_scalar ys (hd xs))
      else if length ys = 1 then Inr (add_scalar xs (hd ys))
      else Inl (ValueError ''operands could not be broadcast together''))"

text \<open>\<^verbatim>\<open>a[i] = v\<close> with a non-negative index: in place, IndexError out of range.\<close>

definition setitem :: "ndarray \<Rightarrow> nat \<Rightarrow> cell \<Rightarrow> error + ndarray" where
  "setitem xs i v = (if i < length xs then Inr (xs[i := v]) else Inl (IndexError i))"

text \<open>
  \<^verbatim>\<open>np.linspace(start, stop, num)\<close> with the endpoint included: \<open>num\<close> samples
  \<open>start + i * step\<close> with \<open>step = (stop - start) / (num - 1)\<close>, the last one set to \<open>stop\<close>.
\<close>

definition linspace :: "real \<Rightarrow> real \<Rightarrow> nat \<Rightarrow> ndarray" where
  "linspace start stop num =
     (let div' = num - 1;
          delta = stop - start;
          y = (if 0 < div' then map (\<lambda>i. Some (real i * (delta / real div') + start)) [0..<num]
               else map (\<lambda>i. Some (real i * delta + start)) [0..<num])
      in if 1 < num then y[num - 1 := Some stop] else y)"

text \<open>\<^verbatim>\<open>np.random.seed(s)\<close> resets the global generator.\<close>

definition random_seed :: "'g numpy \<Rightarrow> nat \<Rightarrow> (unit, 'g) py" where
  "random_seed np s = (\<lambda>w. (Inr (), w\<lparr>rng := np_random_seed np s\<rparr>))"

text \<open>
  \<^verbatim>\<open>np.random.normal(loc, scale, size)\<close> fills an array of \<open>size\<close> entries, one standard
  normal draw after the other from the global generator, each scaled and shifted.
\<close>

fun draw :: "('g \<Rightarrow> real \<times> 'g) \<Rightarrow> nat \<Rightarrow> 'g \<Rightarrow> real list \<times> 'g" where
  "draw gauss 0 g = ([], g)"
| "draw gauss (Suc n) g =
     (case gauss g of (z, g') \<Rightarrow> (case draw gauss n g' of (zs, g'') \<Rightarrow> (z # zs, g'')))"

definition random_normal :: "'g numpy \<Rightarrow> real \<Rightarrow> real \<Rightarrow> nat \<Rightarrow> (ndarray, 'g) py" where
  "random_normal np loc scale size' =
     (\<lambda>w. case draw (np_random_gauss np) size' (rng w) of
             (zs, g) \<Rightarrow> (Inr (map (\<lambda>z. Some (loc + scale * z)) zs), w\<lparr>rng := g\<rparr>))"

text \<open>\<^verbatim>\<open>c[0, 1]\<close> on a matrix and \<^verbatim>\<open>m, b = a\<close> on an array.\<close>

definition index2 :: "cell list list \<Rightarrow> nat \<Rightarrow> nat \<Rightarrow> error + cell" where
  "index2 c i j =
     (if i < length c then (if j < length (c ! i) then Inr (c ! i ! j) else Inl (IndexError j))
      else Inl (IndexError i))"

definition unpack2 :: "ndarray \<Rightarrow> error + (cell \<times> cell)" where
  "unpack2 a = (case a of [m, b] \<Rightarrow> Inr (m, b) | _ \<Rightarrow> Inl (ValueError ''unpack''))"

subsection \<open>pandas\<close>

text \<open>A new object in the store; the statement's value is its address.\<close>

definition new_frame :: "DataFrame \<Rightarrow> (nat, 'g) py" where
  "new_frame df =
     (\<lambda>w. (Inr (next_id w), w\<lparr>frames := (frames w)(next_id w := df), next_id := Suc (next_id w)\<rparr>))"

definition deref :: "nat \<Rightarrow> (DataFrame, 'g) py" where
  "deref r = (\<lambda>w. (Inr (frames w r), w))"

text \<open>
  \<^verbatim>\<open>pd.DataFrame(data)\<close> on a dict of arrays: the keys in order are the columns, row \<open>i\<close>
  holds entry \<open>i\<close> of every array, arrays of different lengths raise ValueError.
\<close>

definition frame_of_dict :: "(string \<times> ndarray) list \<Rightarrow> error + DataFrame" where
  "frame_of_dict data =
     (let n = (case data of [] \<Rightarrow> 0 | (k, a) # _ \<Rightarrow> length a)
      in if list_all (\<lambda>(k, a). length a = n) data
         then Inr \<lparr>columns = map fst data,
                   rows = map (\<lambda>i. map (\<lambda>(k, a). a ! i) data) [0..<n]\<rparr>
         else Inl (ValueError ''All arrays must be of the same length''))"

definition pd_DataFrame :: "(string \<times> ndarray) list \<Rightarrow> (nat, 'g) py" where
  "pd_DataFrame data = bind_py (lift_py (frame_of_dict data)) new_frame"

fun split_comma :: "string \<Rightarrow> string list" where
  "split_comma [] = [[]]"
| "split_comma (c # cs) =
     (if c = CHR '','' then [] # split_comma cs
      else (case split_comma cs of [] \<Rightarrow> [[c]] | f # rest \<Rightarrow> (c # f) # rest))"

fun join_comma :: "string list \<Rightarrow> string" where
  "join_comma [] = []"
| "join_comma [x] = x"
| "join_comma (x # y # ys) = x @ CHR '','' # join_comma (y # ys)"

text \<open>
  \<^verbatim>\<open>df.to_csv(filename, index=False)\<close> opens the path for writing and writes the header
  line, then one line per row. The empty path cannot be opened in any world; where the path
  cannot be opened the call raises and no file is created or changed.
\<close>

definition can_write :: "'g world \<Rightarrow> string \<Rightarrow> bool" where
  "can_write w filename = (filename \<noteq> [] \<and> writable w filename)"

definition to_csv :: "nat \<Rightarrow> string \<Rightarrow> (unit, 'g) py" where
  "to_csv r filename =
     (\<lambda>w. if \<not> can_write w filename then (Inl (OSError filename), w)
           else let df = frames w r
                in (Inr (), w\<lparr>fs := (fs w)(filename \<mapsto>
                      \<lparr>header_line = join_comma (columns df), records = rows df\<rparr>)\<rparr>))"

text \<open>
  \<^verbatim>\<open>pd.read_csv(filename)\<close>: the header line names the columns. The first data line
  fixes the width of the table: the number of names, or the number of its own fields when
  that is larger; the extra leading fields of every line are then the index, not data. A
  line with fewer fields than the width is filled with NaN, a line with more fields is a
  parse error, and a file with nothing in its header line has no columns to parse.
\<close>

definition parse_csv :: "csv_file \<Rightarrow> error + DataFrame" where
  "parse_csv f =
     (if header_line f = [] then Inl EmptyDataError
      else let cols = split_comma (header_line f);
               n = length cols;
               width = (case records f of [] \<Rightarrow> n | r # _ \<Rightarrow> max n (length r))
           in if list_ex (\<lambda>r. width < length r) (records f) then Inl ParserError
              else Inr \<lparr>columns = cols,
                        rows = map (\<lambda>r. drop (width - n) (r @ replicate (width - length r) None))
                                 (records f)\<rparr>)"

definition read_csv :: "string \<Rightarrow> (nat, 'g) py" where
  "read_csv filename =
     (\<lambda>w. case fs w filename of
             None \<Rightarrow> (Inl (FileNotFoundError filename), w)
           | Some f \<Rightarrow> bind_py (lift_py (parse_csv f)) new_frame w)"

definition shape :: "DataFrame \<Rightarrow> nat \<times> nat" where
  "shape df = (length (rows df), length (columns df))"

text \<open>\<^verbatim>\<open>df.isnull().values.any()\<close>: some cell of some row is missing.\<close>

definition isnull_values_any :: "DataFrame \<Rightarrow> bool" where
  "isnull_values_any df = list_ex (\<lambda>r. list_ex (\<lambda>c. c = None) r) (rows df)"

text \<open>
  \<^verbatim>\<open>df.dropna()\<close>: a new DataFrame object with the rows that have no missing cell, in
  their order; the object it is called on is left as it is.
\<close>

definition complete :: "cell list \<Rightarrow> bool" where
  "complete r = list_all (\<lambda>c. c \<noteq> None) r"

definition dropna_frame :: "DataFrame \<Rightarrow> DataFrame" where
  "dropna_frame df = df\<lparr>rows := filter complete (rows df)\<rparr>"

definition dropna :: "nat \<Rightarrow> (nat, 'g) py" where
  "dropna r = bind_py (deref r) (\<lambda>df. new_frame (dropna_frame df))"

text \<open>\<^verbatim>\<open>df[name].values\<close>: the column as an array, KeyError when there is no such column.\<close>

fun index_of :: "'a \<Rightarrow> 'a list \<Rightarrow> nat" where
  "index_of x [] = 0"
| "index_of x (y # ys) = (if x = y then 0 else Suc (index_of x ys))"

definition column_values :: "DataFrame \<Rightarrow> string \<Rightarrow> error + ndarray" where
  "column_values df name =
     (if name \<in> set (columns df)
      then Inr (map (\<lambda>r. r ! index_of name (columns df)) (rows df))
      else Inl (KeyError name))"

definition getitem_values :: "nat \<Rightarrow> string \<Rightarrow> (ndarray, 'g) py" where
  "getitem_values r name = bind_py (deref r) (\<lambda>df. lift_py (column_values df name))"

section \<open>The script\<close>

subsection \<open>\<^verbatim>\<open>create_dummy_data\<close>\<close>

definition create_dummy_data :: "'g numpy \<Rightarrow> string \<Rightarrow> (string, 'g) py" where
  "create_dummy_data np filename =
     bind_py (random_seed np 42) (\<lambda>_.
     bind_py (return_py (linspace 0 10 50)) (\<lambda>current.
     bind_py (return_py (5::real)) (\<lambda>resistance.
     bind_py (random_normal np 0 (5 / 2) 50) (\<lambda>noise.
     bind_py (lift_py (add_arrays (mul_scalar current (Some resistance)) noise)) (\<lambda>voltage.
     bind_py (lift_py (setitem voltage 5 None)) (\<lambda>voltage.
     bind_py (lift_py (setitem voltage 15 None)) (\<lambda>voltage.
     bind_py (return_py [(''Current_A'', current), (''Voltage_V'', voltage)]) (\<lambda>data.
     bind_py (pd_DataFrame data) (\<lambda>df.
     bind_py (to_csv df filename) (\<lambda>_.
     bind_py (print_py [Str ''Created dummy dataset: '', Str filename]) (\<lambda>_.
     return_py filename)))))))))))"

subsection \<open>\<^verbatim>\<open>process_and_analyze\<close>\<close>

text \<open>Step 2, data cleaning: the statements between the load and the extraction.\<close>

definition clean :: "nat \<Rightarrow> (nat, 'g) py" where
  "clean df =
     bind_py (deref df) (\<lambda>raw.
     bind_py (print_py [Str ''Raw data shape:'', Str '' '', Shape (shape raw)]) (\<lambda>_.
     bind_py (if isnull_values_any raw
              then bind_py (print_py [Str ''Missing values detected. Dropping incomplete rows...''])
                     (\<lambda>_. dropna df)
              else return_py df) (\<lambda>df.
     bind_py (deref df) (\<lambda>cleaned.
     bind_py (print_py [Str ''Cleaned data shape:'', Str '' '', Shape (shape cleaned)]) (\<lambda>_.
     return_py df)))))"

text \<open>Step 3, statistical analysis.\<close>

definition statistics :: "'g numpy \<Rightarrow> ndarray \<Rightarrow> ndarray \<Rightarrow> (unit, 'g) py" where
  "statistics np current voltage =
     bind_py (print_py [Str (CHR 10 # ''--- Statistical Analysis ---'')]) (\<lambda>_.
     bind_py (lift_py (np_mean np voltage)) (\<lambda>mean_v.
     bind_py (lift_py (np_mean np current)) (\<lambda>mean_i.
     bind_py (lift_py (np_var np voltage)) (\<lambda>var_v.
     bind_py (lift_py (np_std np voltage)) (\<lambda>std_v.
     bind_py (print_py [Str ''Voltage Mean: '', Fixed mean_v 2, Str '' V'']) (\<lambda>_.
     bind_py (print_py [Str ''Voltage Variance: '', Fixed var_v 2, Str '' V^2'']) (\<lambda>_.
     bind_py (print_py [Str ''Voltage Std Dev: '', Fixed std_v 2, Str '' V'']) (\<lambda>_.
     bind_py (lift_py (np_corrcoef np current voltage)) (\<lambda>c.
     bind_py (lift_py (index2 c 0 1)) (\<lambda>correlation.
     print_py [Str ''Correlation (Current vs Voltage): '', Fixed correlation 4]))))))))))"

text \<open>
  Step 4, visualisation. The arguments of \<^verbatim>\<open>plt.plot\<close> are evaluated from left to right,
  the label last; its f-string reads the name \<^verbatim>\<open>resistance\<close>, which the function never
  assigns. The last two bytes of the label are the capital omega in UTF-8.
\<close>

definition visualize :: "'g numpy \<Rightarrow> ndarray \<Rightarrow> ndarray \<Rightarrow> (unit, 'g) py" where
  "visualize np current voltage =
     bind_py (plt_call (Figure (10, 6))) (\<lambda>_.
     bind_py (plt_call (Scatter current voltage ''blue'' [Str ''Experimental Data''] (7 / 10))) (\<lambda>_.
     bind_py (lift_py (np_polyfit np current voltage 1)) (\<lambda>coeffs.
     bind_py (lift_py (unpack2 coeffs)) (\<lambda>(m, b).
     bind_py (return_py (add_scalar (mul_scalar current m) b)) (\<lambda>fitted.
     bind_py (load_global ''resistance'') (\<lambda>resistance.
     bind_py (plt_call (Plot current fitted ''red'' ''--''
                [Str ''Linear Fit (R='', Obj resistance,
                 Str ([CHR 0xCE, CHR 0xA9] @ '' approx)'')])) (\<lambda>_.
     bind_py (plt_call (Title ''V-I Characteristics (Ohm's Law Experiment)'')) (\<lambda>_.
     bind_py (plt_call (Xlabel ''Current (A)'')) (\<lambda>_.
     bind_py (plt_call (Ylabel ''Voltage (V)'')) (\<lambda>_.
     bind_py (plt_call Legend) (\<lambda>_.
     bind_py (plt_call (Grid True '':'' (6 / 10))) (\<lambda>_.
     bind_py (plt_call Tight_layout) (\<lambda>_.
     plt_call Show)))))))))))))"

definition process_and_analyze :: "'g numpy \<Rightarrow> string \<Rightarrow> (unit, 'g) py" where
  "process_and_analyze np filename =
     (\<lambda>w. if \<not> path_exists w filename
           then print_py [Str ''Error: File '', Str filename, Str '' not found.''] w
           else
             bind_py (print_py [Str ''Loading data from '', Str filename, Str ''...'']) (\<lambda>_.
             bind_py (read_csv filename) (\<lambda>df.
             bind_py (clean df) (\<lambda>df.
             bind_py (getitem_values df ''Current_A'') (\<lambda>current.
             bind_py (getitem_values df ''Voltage_V'') (\<lambda>voltage.
             bind_py (statistics np current voltage) (\<lambda>_.
             visualize np current voltage)))))) w)"

subsection \<open>The main block\<close>

definition main :: "'g numpy \<Rightarrow> (unit, 'g) py" where
  "main np =
     bind_py (return_py ''experiment_data.csv'') (\<lambda>data_file.
     bind_py (\<lambda>w. if \<not> path_exists w data_file
                   then bind_py (create_dummy_data np data_file) (\<lambda>_. return_py ()) w
                   else return_py () w) (\<lambda>_.
     process_and_analyze np data_file))"

section \<open>Concrete inputs\<close>

text \<open>
  A stand-in for numpy's numerical routines, to run the script on concrete inputs: its
  generator has one state and draws 0 every time, its statistics return fixed numbers.
\<close>

definition stub_numpy :: "unit numpy" where
  "stub_numpy =
     \<lparr>np_random_seed = (\<lambda>s. ()),
      np_random_gauss = (\<lambda>g. (0, g)),
      np_mean = (\<lambda>xs. Inr (Some 0)),
      np_var = (\<lambda>xs. Inr (Some 0)),
      np_std = (\<lambda>xs. Inr (Some 0)),
      np_corrcoef = (\<lambda>xs ys. Inr [[Some 1, Some 1], [Some 1, Some 1]]),
      np_polyfit = (\<lambda>xs ys deg. Inr [Some 5, Some 0])\<rparr>"

text \<open>
  A world with no file, where every path but the empty one can be written, nothing printed,
  no object and no figure.
\<close>

definition empty_world :: "unit world" where
  "empty_world =
     \<lparr>fs = Map.empty, writable = (\<lambda>p. True), console = [],
      frames = (\<lambda>r. \<lparr>columns = [], rows = []\<rparr>), next_id = 0, figure = [], rng = ()\<rparr>"

text \<open>
  Two small files: \<^verbatim>\<open>data.csv\<close> has three records, the second without a voltage;
  \<^verbatim>\<open>clean.csv\<close> has two complete records. The world \<open>small_world\<close> holds both and one
  DataFrame object created earlier, at address 0.
\<close>

definition data_csv :: csv_file where
  "data_csv =
     \<lparr>header_line = ''Current_A,Voltage_V'',
      records = [[Some 0, Some 1], [Some 1, None], [Some 2, Some 9]]\<rparr>"

definition clean_csv :: csv_file where
  "clean_csv =
     \<lparr>header_line = ''Current_A,Voltage_V'',
      records = [[Some 0, Some 1], [Some 2, Some 9]]\<rparr>"

definition small_world :: "unit world" where
  "small_world =
     empty_world\<lparr>fs := [''data.csv'' \<mapsto> data_csv, ''clean.csv'' \<mapsto> clean_csv],
                  frames := (frames empty_world)
                    (0 := \<lparr>columns = [''Current_A'', ''Voltage_V''],
                           rows = [[Some 4, None], [Some 5, Some 6]]\<rparr>),
                  next_id := 1\<rparr>"

section \<open>Running the statements\<close>

text \<open>How each statement transforms the world, as rewrite rules.\<close>

lemma bind_return [simp]: "bind_py (return_py x) f = f x"
  by (simp add: bind_py_def return_py_def)

lemma bind_lift_Inr [simp]: "bind_py (lift_py (Inr x)) f = f x"
  by (simp add: bind_py_def lift_py_def)

lemma bind_lift_Inl [simp]: "bind_py (lift_py (Inl e)) f = raise_py e"
  by (simp add: bind_py_def lift_py_def raise_py_def)

lemma bind_raise [simp]: "bind_py (raise_py e) f = raise_py e"
  by (simp add: bind_py_def raise_py_def)

lemma return_py_apply [simp]: "return_py x w = (Inr x, w)"
  by (simp add: return_py_def)

lemma raise_py_apply [simp]: "raise_py e w = (Inl e, w)"
  by (simp add: raise_py_def)

lemma bind_assoc [simp]: "bind_py (bind_py m f) g = bind_py m (\<lambda>x. bind_py (f x) g)"
  by (auto simp: bind_py_def fun_eq_iff split: prod.splits sum.splits)

lemma lift_py_apply [simp]: "lift_py r w = (r, w)"
  by (simp add: lift_py_def)

lemma print_py_apply [simp]: "print_py l w = (Inr (), w\<lparr>console := console w @ [l]\<rparr>)"
  by (simp add: print_py_def)

lemma plt_call_apply [simp]: "plt_call c w = (Inr (), w\<lparr>figure := figure w @ [c]\<rparr>)"
  by (simp add: plt_call_def)

lemma new_frame_apply [simp]:
  "new_frame df w =
     (Inr (next_id w), w\<lparr>frames := (frames w)(next_id w := df), next_id := Suc (next_id w)\<rparr>)"
  by (simp add: new_frame_def)

lemma bind_print [simp]: "bind_py (print_py l) f w = f () (w\<lparr>console := console w @ [l]\<rparr>)"
  by (simp add: bind_py_def print_py_def)

lemma bind_plt [simp]: "bind_py (plt_call c) f w = f () (w\<lparr>figure := figure w @ [c]\<rparr>)"
  by (simp add: bind_py_def plt_call_def)

lemma bind_deref [simp]: "bind_py (deref r) f w = f (frames w r) w"
  by (simp add: bind_py_def deref_def)

lemma bind_new_frame [simp]:
  "bind_py (new_frame df) f w =
     f (next_id w) (w\<lparr>frames := (frames w)(next_id w := df), next_id := Suc (next_id w)\<rparr>)"
  by (simp add: bind_py_def new_frame_def)

lemma bind_random_seed [simp]:
  "bind_py (random_seed np s) f w = f () (w\<lparr>rng := np_random_seed np s\<rparr>)"
  by (simp add: bind_py_def random_seed_def)

lemma bind_random_normal [simp]:
  "bind_py (random_normal np loc scale n) f w =
     f (map (\<lambda>z. Some (loc + scale * z)) (fst (draw (np_random_gauss np) n (rng w))))
       (w\<lparr>rng := snd (draw (np_random_gauss np) n (rng w))\<rparr>)"
  by (simp add: bind_py_def random_normal_def split: prod.splits)

lemma bind_to_csv:
  "can_write w filename \<Longrightarrow>
   bind_py (to_csv r filename) f w =
     f () (w\<lparr>fs := (fs w)(filename \<mapsto>
              \<lparr>header_line = join_comma (columns (frames w r)), records = rows (frames w r)\<rparr>)\<rparr>)"
  by (simp add: bind_py_def to_csv_def Let_def)

lemma bind_to_csv_fail:
  "\<not> can_write w filename \<Longrightarrow> bind_py (to_csv r filename) f w = (Inl (OSError filename), w)"
  by (simp add: bind_py_def to_csv_def)

lemma can_write_simps [simp]:
  "can_write (w\<lparr>rng := g\<rparr>) filename = can_write w filename"
  "can_write (w\<lparr>frames := fr\<rparr>) filename = can_write w filename"
  "can_write (w\<lparr>next_id := n\<rparr>) filename = can_write w filename"
  "can_write (w\<lparr>console := c\<rparr>) filename = can_write w filename"
  "can_write (w\<lparr>figure := p\<rparr>) filename = can_write w filename"
  "can_write (w\<lparr>fs := files\<rparr>) filename = can_write w filename"
  by (simp_all add: can_write_def)

lemma bind_lift:
  "bind_py (lift_py r) f w = (case r of Inl e \<Rightarrow> (Inl e, w) | Inr x \<Rightarrow> f x w)"
  by (simp add: bind_py_def lift_py_def split: sum.splits)

lemma bind_py_run:
  "m w = (Inr x, w') \<Longrightarrow> bind_py m f w = f x w'"
  by (simp add: bind_py_def)

lemma bind_py_fail:
  "m w = (Inl e, w') \<Longrightarrow> bind_py m f w = (Inl e, w')"
  by (simp add: bind_py_def)

subsection \<open>The generator\<close>

lemma length_draw [simp]: "length (fst (draw gauss n g)) = n"
proof (induction n arbitrary: g)
  case 0
  show ?case by simp
next
  case (Suc n)
  obtain z g' where zg: "gauss g = (z, g')" by (cases "gauss g")
  obtain zs g'' where d: "draw gauss n g' = (zs, g'')" by (cases "draw gauss n g'")
  have "length zs = n" using Suc [of g'] d by simp
  then show ?case by (simp add: zg d)
qed

lemma length_linspace [simp]: "length (linspace a b n) = n"
  by (simp add: linspace_def Let_def)

lemma linspace_nth:
  "1 < n \<Longrightarrow> i < n \<Longrightarrow>
   linspace a b n ! i = Some (if i = n - 1 then b else real i * ((b - a) / real (n - 1)) + a)"
  by (auto simp: linspace_def Let_def nth_list_update)

lemma linspace_0_10_50: "i < 50 \<Longrightarrow> linspace 0 10 50 ! i = Some (real i * 10 / 49)"
  by (auto simp: linspace_nth)

lemma add_arrays_same_length:
  "length xs = length ys \<Longrightarrow> add_arrays xs ys = Inr (map (\<lambda>(x, y). cell_add x y) (zip xs ys))"
  by (simp add: add_arrays_def)

lemma setitem_in_range: "i < length xs \<Longrightarrow> setitem xs i v = Inr (xs[i := v])"
  by (simp add: setitem_def)

lemma frame_of_two_columns:
  "length a = length b \<Longrightarrow>
   frame_of_dict [(k, a), (k', b)] =
     Inr \<lparr>columns = [k, k'], rows = map (\<lambda>i. [a ! i, b ! i]) [0..<length a]\<rparr>"
  by (simp add: frame_of_dict_def)

lemma create_dummy_data_steps:
  fixes np :: "'g numpy"
  defines "zs \<equiv> fst (draw (np_random_gauss np) 50 (np_random_seed np 42))"
  defines "rs \<equiv> map (\<lambda>i. [Some (real i * 10 / 49),
                           if i = 5 \<or> i = 15 then None
                           else Some (real i * 10 / 49 * 5 + (0 + 5 / 2 * zs ! i))]) [0..<50]"
  shows "create_dummy_data np filename w =
     bind_py (to_csv (next_id w) filename) (\<lambda>_.
     bind_py (print_py [Str ''Created dummy dataset: '', Str filename]) (\<lambda>_.
     return_py filename))
       (w\<lparr>rng := snd (draw (np_random_gauss np) 50 (np_random_seed np 42)),
          frames := (frames w)(next_id w := \<lparr>columns = [''Current_A'', ''Voltage_V''], rows = rs\<rparr>),
          next_id := Suc (next_id w)\<rparr>)"
proof -
  let ?noise = "map (\<lambda>z. Some (0 + 5 / 2 * z)) zs"
  let ?v = "(map (\<lambda>(x, y). cell_add x y)
              (zip (mul_scalar (linspace 0 10 50) (Some 5)) ?noise))[5 := None, 15 := None]"
  have len: "length zs = 50" by (simp add: zs_def)
  have row: "[linspace 0 10 50 ! i, ?v ! i] = rs ! i" if "i < 50" for i
  proof -
    have "?v ! i = (if i = 5 \<or> i = 15 then None
                    else cell_add (cell_mul (linspace 0 10 50 ! i) (Some 5)) (?noise ! i))"
      using that len by (simp add: nth_list_update mul_scalar_def)
    moreover have "rs ! i = [Some (real i * 10 / 49),
                     if i = 5 \<or> i = 15 then None
                     else Some (real i * 10 / 49 * 5 + (0 + 5 / 2 * zs ! i))]"
      using that by (simp add: rs_def)
    ultimately show ?thesis
      using that len by (simp add: linspace_0_10_50 cell_add_def cell_mul_def)
  qed
  have rows: "map (\<lambda>i. [linspace 0 10 50 ! i, ?v ! i]) [0..<50] = rs"
  proof (rule nth_equalityI)
    show "length (map (\<lambda>i. [linspace 0 10 50 ! i, ?v ! i]) [0..<50]) = length rs"
      by (simp add: rs_def)
  next
    fix i
    assume "i < length (map (\<lambda>i. [linspace 0 10 50 ! i, ?v ! i]) [0..<50])"
    then have i: "i < 50" by simp
    show "map (\<lambda>i. [linspace 0 10 50 ! i, ?v ! i]) [0..<50] ! i = rs ! i"
      using row [OF i] i by simp
  qed
  show ?thesis
    unfolding create_dummy_data_def
    using rows len
    by (simp add: add_arrays_same_length setitem_in_range mul_scalar_def pd_DataFrame_def
        frame_of_two_columns zs_def)
qed

lemma create_dummy_data_run:
  fixes np :: "'g numpy"
  defines "zs \<equiv> fst (draw (np_random_gauss np) 50 (np_random_seed np 42))"
  defines "rs \<equiv> map (\<lambda>i. [Some (real i * 10 / 49),
                           if i = 5 \<or> i = 15 then None
                           else Some (real i * 10 / 49 * 5 + (0 + 5 / 2 * zs ! i))]) [0..<50]"
  assumes ok: "can_write w filename"
  shows "create_dummy_data np filename w =
     (Inr filename,
      w\<lparr>rng := snd (draw (np_random_gauss np) 50 (np_random_seed np 42)),
        frames := (frames w)(next_id w := \<lparr>columns = [''Current_A'', ''Voltage_V''], rows = rs\<rparr>),
        next_id := Suc (next_id w),
        fs := (fs w)(filename \<mapsto> \<lparr>header_line = ''Current_A,Voltage_V'', records = rs\<rparr>),
        console := console w @ [[Str ''Created dummy dataset: '', Str filename]]\<rparr>)"
  using ok unfolding create_dummy_data_steps zs_def rs_def by (simp add: bind_to_csv)

lemma create_dummy_data_unwritable:
  assumes "\<not> can_write w filename"
  shows "fst (create_dummy_data np filename w) = Inl (OSError filename)"
    and "fs (snd (create_dummy_data np filename w)) = fs w"
    and "rng (snd (create_dummy_data np filename w))
           = snd (draw (np_random_gauss np) 50 (np_random_seed np 42))"
  using assms unfolding create_dummy_data_steps by (simp_all add: bind_to_csv_fail)

lemma parse_exact_width:
  assumes "header_line f \<noteq> []"
    and "\<forall>r\<in>set (records f). length r = length (split_comma (header_line f))"
  shows "parse_csv f = Inr \<lparr>columns = split_comma (header_line f), rows = records f\<rparr>"
proof -
  let ?n = "length (split_comma (header_line f))"
  have width: "(case records f of [] \<Rightarrow> ?n | r # _ \<Rightarrow> max ?n (length r)) = ?n"
    using assms(2) by (cases "records f") simp_all
  have "map (\<lambda>r. drop (?n - ?n) (r @ replicate (?n - length r) None)) (records f) = records f"
    by (rule map_idI) (simp add: assms(2))
  moreover have "\<not> list_ex (\<lambda>r. ?n < length r) (records f)"
    using assms(2) by (auto simp: list_ex_iff)
  ultimately show ?thesis
    using assms(1) unfolding parse_csv_def Let_def width by simp
qed

lemma parse_two_columns:
  assumes "list_all (\<lambda>r. length r = 2) rs"
  shows "parse_csv \<lparr>header_line = ''Current_A,Voltage_V'', records = rs\<rparr> =
     Inr \<lparr>columns = [''Current_A'', ''Voltage_V''], rows = rs\<rparr>"
  using assms
    parse_exact_width [of "\<lparr>header_line = ''Current_A,Voltage_V'', records = rs\<rparr>"]
  by (simp add: list_all_iff)

lemma two_column_values:
  "column_values \<lparr>columns = [''Current_A'', ''Voltage_V''], rows = rs\<rparr> ''Current_A''
     = Inr (map (\<lambda>r. r ! 0) rs)"
  "column_values \<lparr>columns = [''Current_A'', ''Voltage_V''], rows = rs\<rparr> ''Voltage_V''
     = Inr (map (\<lambda>r. r ! 1) rs)"
  by (simp_all add: column_values_def)

lemma count_kept: "length (filter (\<lambda>i::nat. i \<noteq> 5 \<and> i \<noteq> 15) [0..<50]) = 48"
  by code_simp

lemma generated_file:
  fixes np :: "'g numpy"
  defines "rs \<equiv> map (\<lambda>i. [Some (real i * 10 / 49),
                           if i = 5 \<or> i = 15 then None
                           else Some (real i * 10 / 49 * 5
                             + (0 + 5 / 2 * fst (draw (np_random_gauss np) 50 (np_random_seed np 42)) ! i))])
                    [0..<50]"
  shows "can_write w filename \<Longrightarrow>
         fs (snd (create_dummy_data np filename w)) filename
           = Some \<lparr>header_line = ''Current_A,Voltage_V'', records = rs\<rparr>"
    and "parse_csv \<lparr>header_line = ''Current_A,Voltage_V'', records = rs\<rparr>
           = Inr \<lparr>columns = [''Current_A'', ''Voltage_V''], rows = rs\<rparr>"
    and "length rs = 50"
    and "length (filter complete rs) = 48"
    and "isnull_values_any \<lparr>columns = [''Current_A'', ''Voltage_V''], rows = rs\<rparr>"
proof -
  show "fs (snd (create_dummy_data np filename w)) filename
           = Some \<lparr>header_line = ''Current_A,Voltage_V'', records = rs\<rparr>"
    if "can_write w filename"
    using that by (simp add: create_dummy_data_run rs_def)
  show "parse_csv \<lparr>header_line = ''Current_A,Voltage_V'', records = rs\<rparr>
           = Inr \<lparr>columns = [''Current_A'', ''Voltage_V''], rows = rs\<rparr>"
    by (rule parse_two_columns) (simp add: rs_def list_all_iff)
  show "length rs = 50" by (simp add: rs_def)
  define f where "f = (\<lambda>i::nat. [Some (real i * 10 / 49),
                           if i = 5 \<or> i = 15 then None
                           else Some (real i * 10 / 49 * 5
                             + (0 + 5 / 2 * fst (draw (np_random_gauss np) 50 (np_random_seed np 42)) ! i))])"
  have c: "complete (f i) = (i \<noteq> 5 \<and> i \<noteq> 15)" for i
    by (simp add: complete_def f_def del: not_None_eq)
  have "filter (complete \<circ> f) [0..<50] = filter (\<lambda>i. i \<noteq> 5 \<and> i \<noteq> 15) [0..<50]"
    by (rule filter_cong) (simp_all add: c)
  moreover have "rs = map f [0..<50]" by (simp add: rs_def f_def)
  ultimately show "length (filter complete rs) = 48"
    by (simp add: filter_map count_kept)
  have "rs ! 5 = [Some (50 / 49), None]" by (simp add: rs_def)
  moreover have "rs ! 5 \<in> set rs" by (rule nth_mem) (simp add: rs_def)
  ultimately have "[Some (50 / 49), None] \<in> set rs" by simp
  then have "\<exists>r\<in>set rs. \<exists>c\<in>set r. c = None"
    by (rule rev_bexI) simp
  then show "isnull_values_any \<lparr>columns = [''Current_A'', ''Voltage_V''], rows = rs\<rparr>"
    by (simp add: isnull_values_any_def list_ex_iff)
qed

subsection \<open>The analyzer\<close>

lemma dropna_clean: "\<not> isnull_values_any df \<Longrightarrow> dropna_frame df = df"
proof -
  assume clean: "\<not> isnull_values_any df"
  have "complete r" if r: "r \<in> set (rows df)" for r
    unfolding complete_def list_all_iff
  proof
    fix c
    assume c: "c \<in> set r"
    show "c \<noteq> None"
    proof
      assume "c = None"
      with r c have "isnull_values_any df"
        unfolding isnull_values_any_def list_ex_iff by blast
      with clean show False by simp
    qed
  qed
  then have "filter complete (rows df) = rows df" by (simp add: filter_id_conv)
  then show ?thesis by (simp add: dropna_frame_def)
qed

lemma dropna_no_null: "\<not> isnull_values_any (dropna_frame df)"
  by (auto simp: isnull_values_any_def dropna_frame_def complete_def list_ex_iff list_all_iff)

lemma dropna_count:
  "length (rows (dropna_frame df)) + length (filter (\<lambda>r. \<not> complete r) (rows df)) = length (rows df)"
  by (simp add: dropna_frame_def sum_length_filter_compl)

lemma column_values_dropna:
  "column_values df name = Inr xs \<Longrightarrow>
   column_values (dropna_frame df) name
     = Inr (map (\<lambda>r. r ! index_of name (columns df)) (filter complete (rows df)))
   \<and> xs = map (\<lambda>r. r ! index_of name (columns df)) (rows df)"
  by (auto simp: column_values_def dropna_frame_def split: if_splits)

lemma zip_columns_filter:
  "zip (map g (filter P xs)) (map h (filter P xs))
     = map snd (filter (\<lambda>(x, p). P x) (zip xs (zip (map g xs) (map h xs))))"
  by (induction xs) simp_all

lemma subseq_columns_filter:
  "subseq (zip (map g (filter P xs)) (map h (filter P xs))) (zip (map g xs) (map h xs))"
proof -
  have "zip (map g ys) (map h ys) = map (\<lambda>x. (g x, h x)) ys" for ys
    by (induction ys) simp_all
  then show ?thesis by (simp add: subseq_map)
qed

lemma read_csv_run:
  "fs w filename = Some f \<Longrightarrow> parse_csv f = Inr df \<Longrightarrow>
   read_csv filename w =
     (Inr (next_id w), w\<lparr>frames := (frames w)(next_id w := df), next_id := Suc (next_id w)\<rparr>)"
  by (simp add: read_csv_def)

lemma bind_read_csv:
  "fs w filename = Some f \<Longrightarrow> parse_csv f = Inr df \<Longrightarrow>
   bind_py (read_csv filename) g w =
     g (next_id w) (w\<lparr>frames := (frames w)(next_id w := df), next_id := Suc (next_id w)\<rparr>)"
  by (simp add: bind_py_def read_csv_run)

lemma clean_run:
  "clean r w =
     (if isnull_values_any (frames w r)
      then (Inr (next_id w),
            w\<lparr>console := console w @
                  [[Str ''Raw data shape:'', Str '' '', Shape (shape (frames w r))],
                   [Str ''Missing values detected. Dropping incomplete rows...''],
                   [Str ''Cleaned data shape:'', Str '' '', Shape (shape (dropna_frame (frames w r)))]],
               frames := (frames w)(next_id w := dropna_frame (frames w r)),
               next_id := Suc (next_id w)\<rparr>)
      else (Inr r,
            w\<lparr>console := console w @
                  [[Str ''Raw data shape:'', Str '' '', Shape (shape (frames w r))],
                   [Str ''Cleaned data shape:'', Str '' '', Shape (shape (frames w r))]]\<rparr>))"
  by (simp add: clean_def dropna_def)

lemma bind_clean:
  "bind_py (clean r) g w =
     (if isnull_values_any (frames w r)
      then g (next_id w)
            (w\<lparr>console := console w @
                  [[Str ''Raw data shape:'', Str '' '', Shape (shape (frames w r))],
                   [Str ''Missing values detected. Dropping incomplete rows...''],
                   [Str ''Cleaned data shape:'', Str '' '', Shape (shape (dropna_frame (frames w r)))]],
               frames := (frames w)(next_id w := dropna_frame (frames w r)),
               next_id := Suc (next_id w)\<rparr>)
      else g r
            (w\<lparr>console := console w @
                  [[Str ''Raw data shape:'', Str '' '', Shape (shape (frames w r))],
                   [Str ''Cleaned data shape:'', Str '' '', Shape (shape (frames w r))]]\<rparr>))"
  by (simp add: bind_py_def clean_run)

lemma statistics_console:
  "\<exists>r ls. statistics np c v w = (r, w\<lparr>console := console w @ ls\<rparr>)"
  unfolding statistics_def
  apply (simp add: bind_py_def lift_py_def print_py_def split: sum.splits prod.splits)
  apply (auto)
  done

lemma load_global_resistance: "load_global ''resistance'' = raise_py (NameError ''resistance'')"
  by (simp add: load_global_def module_globals_def builtin_names_def)

lemma visualize_raises:
  "\<exists>e. visualize np c v w =
     (Inl e, w\<lparr>figure := figure w @ [Figure (10, 6), Scatter c v ''blue'' [Str ''Experimental Data''] (7 / 10)]\<rparr>)"
proof (cases "np_polyfit np c v 1")
  case (Inl e)
  then show ?thesis by (simp add: visualize_def)
next
  case (Inr coeffs)
  show ?thesis
  proof (cases "unpack2 coeffs")
    case (Inl e)
    then show ?thesis using Inr by (simp add: visualize_def)
  next
    case r: (Inr mb)
    obtain m b where "mb = (m, b)" by (cases mb)
    then show ?thesis using Inr r
      by (simp add: visualize_def load_global_resistance)
  qed
qed

lemma visualize_NameError:
  "np_polyfit np c v 1 = Inr [m, b] \<Longrightarrow>
   visualize np c v w =
     (Inl (NameError ''resistance''),
      w\<lparr>figure := figure w @ [Figure (10, 6), Scatter c v ''blue'' [Str ''Experimental Data''] (7 / 10)]\<rparr>)"
  by (simp add: visualize_def load_global_resistance unpack2_def)

lemma process_loaded:
  assumes "fs w filename = Some f" and "parse_csv f = Inr df"
  shows "\<exists>w1. process_and_analyze np filename w =
       bind_py (lift_py (column_values (dropna_frame df) ''Current_A'')) (\<lambda>current.
       bind_py (lift_py (column_values (dropna_frame df) ''Voltage_V'')) (\<lambda>voltage.
       bind_py (statistics np current voltage) (\<lambda>_. visualize np current voltage))) w1
     \<and> console w1 = console w @
          [[Str ''Loading data from '', Str filename, Str ''...''],
           [Str ''Raw data shape:'', Str '' '', Shape (shape df)]] @
          (if isnull_values_any df
           then [[Str ''Missing values detected. Dropping incomplete rows...'']] else []) @
          [[Str ''Cleaned data shape:'', Str '' '', Shape (shape (dropna_frame df))]]
     \<and> frames w1 = (if isnull_values_any df
                    then (frames w)(next_id w := df, Suc (next_id w) := dropna_frame df)
                    else (frames w)(next_id w := df))
     \<and> next_id w1 = (if isnull_values_any df then Suc (Suc (next_id w)) else Suc (next_id w))
     \<and> fs w1 = fs w \<and> figure w1 = figure w \<and> rng w1 = rng w"
proof -
  let ?w0 = "w\<lparr>console := console w @ [[Str ''Loading data from '', Str filename, Str ''...'']]\<rparr>"
  have f: "fs ?w0 filename = Some f" using assms by simp
  show ?thesis
  proof (cases "isnull_values_any df")
    case True
    show ?thesis
      apply (simp add: process_and_analyze_def path_exists_def bind_read_csv [OF f assms(2)]
          bind_clean getitem_values_def bind_lift assms True split: sum.splits)
      apply (intro conjI allI impI exI)
      apply (rule refl)
      apply simp_all
      done
  next
    case False
    then have d: "dropna_frame df = df" by (rule dropna_clean)
    show ?thesis
      apply (simp add: process_and_analyze_def path_exists_def bind_read_csv [OF f assms(2)]
          bind_clean getitem_values_def bind_lift assms False d split: sum.splits)
      apply (intro conjI allI impI exI)
      apply (rule refl)
      apply simp_all
      done
  qed
qed

lemma analysis_world:
  "\<exists>e w'. bind_py (lift_py a) (\<lambda>current.
            bind_py (lift_py b) (\<lambda>voltage.
            bind_py (statistics np current voltage) (\<lambda>_. visualize np current voltage))) w
            = (Inl e, w')
     \<and> fs w' = fs w \<and> frames w' = frames w \<and> next_id w' = next_id w \<and> rng w' = rng w
     \<and> (\<exists>ls. console w' = console w @ ls)
     \<and> (figure w' = figure w \<or>
         (\<exists>c v. figure w' = figure w @
            [Figure (10, 6), Scatter c v ''blue'' [Str ''Experimental Data''] (7 / 10)]))"
proof (cases a)
  case (Inl e)
  then show ?thesis by simp
next
  case a: (Inr current)
  show ?thesis
  proof (cases b)
    case (Inl e)
    then show ?thesis using a by simp
  next
    case b: (Inr voltage)
    obtain r ls where s: "statistics np current voltage w = (r, w\<lparr>console := console w @ ls\<rparr>)"
      using statistics_console by blast
    show ?thesis
    proof (cases r)
      case (Inl e)
      then show ?thesis using a b s by (simp add: bind_py_fail)
    next
      case (Inr u)
      obtain e where v: "visualize np current voltage (w\<lparr>console := console w @ ls\<rparr>) =
          (Inl e, w\<lparr>console := console w @ ls,
                    figure := figure w @ [Figure (10, 6),
                      Scatter current voltage ''blue'' [Str ''Experimental Data''] (7 / 10)]\<rparr>)"
        using visualize_raises [of np current voltage "w\<lparr>console := console w @ ls\<rparr>"] by auto
      show ?thesis using a b s Inr v by (simp add: bind_py_run)
    qed
  qed
qed

lemma process_parse_fail:
  "fs w filename = Some f \<Longrightarrow> parse_csv f = Inl e \<Longrightarrow>
   process_and_analyze np filename w =
     (Inl e, w\<lparr>console := console w @ [[Str ''Loading data from '', Str filename, Str ''...'']]\<rparr>)"
  by (simp add: process_and_analyze_def path_exists_def read_csv_def bind_py_def lift_py_def)

lemma process_missing:
  "fs w filename = None \<Longrightarrow>
   process_and_analyze np filename w =
     (Inr (), w\<lparr>console := console w @ [[Str ''Error: File '', Str filename, Str '' not found.'']]\<rparr>)"
  by (simp add: process_and_analyze_def path_exists_def)

lemma process_world:
  "\<exists>r w'. process_and_analyze np filename w = (r, w')
     \<and> fs w' = fs w \<and> rng w' = rng w
     \<and> (\<forall>a<next_id w. frames w' a = frames w a)
     \<and> (\<forall>f df. fs w filename = Some f \<longrightarrow> parse_csv f = Inr df \<longrightarrow> frames w' (next_id w) = df)
     \<and> (path_exists w filename \<longrightarrow> (\<exists>e. r = Inl e))
     \<and> (figure w' = figure w \<or>
         (\<exists>c v. figure w' = figure w @
            [Figure (10, 6), Scatter c v ''blue'' [Str ''Experimental Data''] (7 / 10)]))"
proof (cases "fs w filename")
  case None
  then show ?thesis by (simp add: process_missing path_exists_def)
next
  case (Some f)
  show ?thesis
  proof (cases "parse_csv f")
    case (Inl e)
    then show ?thesis using Some by (simp add: process_parse_fail)
  next
    case (Inr df)
    let ?T = "bind_py (lift_py (column_values (dropna_frame df) ''Current_A'')) (\<lambda>current.
       bind_py (lift_py (column_values (dropna_frame df) ''Voltage_V'')) (\<lambda>voltage.
       bind_py (statistics np current voltage) (\<lambda>_. visualize np current voltage)))"
    obtain w1 where p: "process_and_analyze np filename w = ?T w1"
      and w1: "frames w1 = (if isnull_values_any df
                    then (frames w)(next_id w := df, Suc (next_id w) := dropna_frame df)
                    else (frames w)(next_id w := df))"
        "fs w1 = fs w" "figure w1 = figure w" "rng w1 = rng w"
      using process_loaded [OF Some Inr, of np] by blast
    obtain e w' where t: "?T w1 = (Inl e, w')"
      and w': "fs w' = fs w1" "frames w' = frames w1" "rng w' = rng w1"
        "figure w' = figure w1 \<or>
         (\<exists>c v. figure w' = figure w1 @
            [Figure (10, 6), Scatter c v ''blue'' [Str ''Experimental Data''] (7 / 10)])"
      using analysis_world [of "column_values (dropna_frame df) ''Current_A''"
          "column_values (dropna_frame df) ''Voltage_V''" np w1] by blast
    show ?thesis using Some Inr p t w1 w' by (auto simp: path_exists_def)
  qed
qed

subsection \<open>The concrete inputs\<close>

lemma draw_stub: "draw (\<lambda>g. (0, g)) n g = (replicate n 0, g)"
  by (induction n) simp_all

lemma empty_world_can_write: "can_write empty_world p = (p \<noteq> [])"
  by (simp add: can_write_def empty_world_def)

lemma data_csv_parse:
  "parse_csv data_csv =
     Inr \<lparr>columns = [''Current_A'', ''Voltage_V''],
          rows = [[Some 0, Some 1], [Some 1, None], [Some 2, Some 9]]\<rparr>"
  by (simp add: data_csv_def parse_csv_def)

lemma clean_csv_parse:
  "parse_csv clean_csv =
     Inr \<lparr>columns = [''Current_A'', ''Voltage_V''], rows = [[Some 0, Some 1], [Some 2, Some 9]]\<rparr>"
  by (simp add: clean_csv_def parse_csv_def)

lemma small_world_simps:
  "fs small_world ''data.csv'' = Some data_csv"
  "fs small_world ''clean.csv'' = Some clean_csv"
  "fs small_world ''missing.csv'' = None"
  "next_id small_world = 1"
  "console small_world = []"
  "frames small_world 0 =
     \<lparr>columns = [''Current_A'', ''Voltage_V''], rows = [[Some 4, None], [Some 5, Some 6]]\<rparr>"
  by (simp_all add: small_world_def empty_world_def)

lemma stub_statistics:
  "statistics stub_numpy c v w =
     (Inr (), w\<lparr>console := console w @
        [[Str (CHR 10 # ''--- Statistical Analysis ---'')],
         [Str ''Voltage Mean: '', Fixed (Some 0) 2, Str '' V''],
         [Str ''Voltage Variance: '', Fixed (Some 0) 2, Str '' V^2''],
         [Str ''Voltage Std Dev: '', Fixed (Some 0) 2, Str '' V''],
         [Str ''Correlation (Current vs Voltage): '', Fixed (Some 1) 4]]\<rparr>)"
  by (simp add: statistics_def stub_numpy_def index2_def)

lemma stub_NameError:
  assumes "fs w filename = Some f" and "parse_csv f = Inr df"
    and "''Current_A'' \<in> set (columns df)" and "''Voltage_V'' \<in> set (columns df)"
  shows "fst (process_and_analyze stub_numpy filename w) = Inl (NameError ''resistance'')"
proof -
  obtain w1 where p: "process_and_analyze stub_numpy filename w =
       bind_py (lift_py (column_values (dropna_frame df) ''Current_A'')) (\<lambda>current.
       bind_py (lift_py (column_values (dropna_frame df) ''Voltage_V'')) (\<lambda>voltage.
       bind_py (statistics stub_numpy current voltage) (\<lambda>_. visualize stub_numpy current voltage))) w1"
    using process_loaded [OF assms(1,2), of stub_numpy] by blast
  obtain c v where cv: "column_values (dropna_frame df) ''Current_A'' = Inr c"
      "column_values (dropna_frame df) ''Voltage_V'' = Inr v"
    using assms(3,4) by (simp add: column_values_def dropna_frame_def)
  have pf: "np_polyfit stub_numpy c v 1 = Inr [Some 5, Some 0]" by (simp add: stub_numpy_def)
  show ?thesis
    by (simp add: p cv bind_py_run [OF stub_statistics] visualize_NameError [OF pf])
qed

section \<open>The claims\<close>

subsection \<open>The analyzer on an existing file\<close>

text \<open>
  Claim C1 says that \<^verbatim>\<open>process_and_analyze\<close> completes all six steps on every existing,
  well-formed file and ends by showing the plot. The code does not: whatever the file holds
  and whatever numpy returns, the call on an existing file ends in an exception, and the
  only calls that can have reached the figure are \<^verbatim>\<open>plt.figure\<close> and \<^verbatim>\<open>plt.scatter\<close>; the
  fitted line, the title, the axis labels, the legend, the grid and \<^verbatim>\<open>plt.show\<close> are never
  reached. When the file is well formed and numpy returns, the exception is the NameError
  for \<^verbatim>\<open>resistance\<close> in the label of \<^verbatim>\<open>plt.plot\<close>, as the run on the generated file shows.
\<close>

theorem analyzer_raises_on_existing_file:
  assumes "path_exists w filename"
  shows "(\<exists>e. fst (process_and_analyze np filename w) = Inl e)
    \<and> (figure (snd (process_and_analyze np filename w)) = figure w
       \<or> (\<exists>c v. figure (snd (process_and_analyze np filename w)) = figure w @
            [Figure (10, 6), Scatter c v ''blue'' [Str ''Experimental Data''] (7 / 10)]))"
  using process_world [of np filename w] assms by auto

theorem analyzer_raises_on_existing_file_witness:
  "path_exists (snd (create_dummy_data stub_numpy ''experiment_data.csv'' empty_world))
     ''experiment_data.csv''
   \<and> fst (process_and_analyze stub_numpy ''experiment_data.csv''
            (snd (create_dummy_data stub_numpy ''experiment_data.csv'' empty_world)))
       = Inl (NameError ''resistance'')
   \<and> Show \<notin> set (figure (snd (process_and_analyze stub_numpy ''experiment_data.csv''
            (snd (create_dummy_data stub_numpy ''experiment_data.csv'' empty_world)))))
   \<and> fst (main stub_numpy empty_world) = Inl (NameError ''resistance'')"
proof -
  let ?w = "snd (create_dummy_data stub_numpy ''experiment_data.csv'' empty_world)"
  have ex: "path_exists ?w ''experiment_data.csv''"
    by (simp add: path_exists_def generated_file(1) empty_world_can_write)
  have fig: "figure ?w = []"
    by (simp add: create_dummy_data_run empty_world_can_write) (simp add: empty_world_def)
  have err: "fst (process_and_analyze stub_numpy ''experiment_data.csv'' ?w)
      = Inl (NameError ''resistance'')"
    by (rule stub_NameError [OF generated_file(1) generated_file(2)])
      (simp_all add: empty_world_can_write)
  have "Show \<notin> set (figure (snd (process_and_analyze stub_numpy ''experiment_data.csv'' ?w)))"
    using analyzer_raises_on_existing_file [OF ex, of stub_numpy] fig by auto
  moreover have "fst (main stub_numpy empty_world) = Inl (NameError ''resistance'')"
  proof -
    have "\<not> path_exists empty_world ''experiment_data.csv''"
      by (simp add: path_exists_def empty_world_def)
    then have "main stub_numpy empty_world
        = process_and_analyze stub_numpy ''experiment_data.csv'' ?w"
      by (simp add: main_def bind_py_def create_dummy_data_run empty_world_can_write)
    then show ?thesis using err by simp
  qed
  ultimately show ?thesis using ex err by simp
qed

subsection \<open>The analyzer on a missing file\<close>

text \<open>
  Claim C2: for every path that does not exist, \<^verbatim>\<open>process_and_analyze\<close> prints the error
  message and returns without raising; nothing else changes: no file, no object, no figure
  call, no other line on the console.
\<close>

theorem missing_file_only_prints:
  assumes "\<not> path_exists w filename"
  shows "process_and_analyze np filename w =
     (Inr (), w\<lparr>console := console w @ [[Str ''Error: File '', Str filename, Str '' not found.'']]\<rparr>)"
  using assms by (simp add: process_and_analyze_def)

theorem missing_file_only_prints_witness:
  "\<not> path_exists small_world ''missing.csv'' \<and>
   process_and_analyze stub_numpy ''missing.csv'' small_world =
     (Inr (), small_world\<lparr>console :=
        [[Str ''Error: File '', Str ''missing.csv'', Str '' not found.'']]\<rparr>)"
proof -
  have h: "\<not> path_exists small_world ''missing.csv''"
    by (simp add: path_exists_def small_world_simps)
  show ?thesis
    using h missing_file_only_prints [OF h, of stub_numpy] by (simp add: small_world_simps)
qed

subsection \<open>What the generator writes\<close>

text \<open>
  Claim C3, as amended: for every output path that can be opened for writing,
  \<^verbatim>\<open>create_dummy_data\<close> returns the path and leaves a file with the header \<^verbatim>\<open>Current_A,Voltage_V\<close> and exactly 50 records. Record
  \<open>i\<close> holds the current \<open>i * 10 / 49\<close> (50 evenly spaced values from 0 to 10 inclusive)
  and, except at the indices 5 and 15 where the voltage is missing, the voltage
  \<open>current * 5 + noise\<close>, the noise being \<open>0 + 2.5 * z\<close> for the \<open>i\<close>-th standard normal draw
  \<open>z\<close> of the generator seeded with 42.
\<close>

theorem create_dummy_data_file:
  assumes "can_write w filename"
  shows "\<exists>w' file. create_dummy_data np filename w = (Inr filename, w')
     \<and> fs w' filename = Some file
     \<and> header_line file = ''Current_A,Voltage_V''
     \<and> length (records file) = 50
     \<and> (\<forall>i<50. records file ! i =
           [Some (real i * 10 / 49),
            if i = 5 \<or> i = 15 then None
            else Some (real i * 10 / 49 * 5
                       + (0 + 5 / 2 * fst (draw (np_random_gauss np) 50 (np_random_seed np 42)) ! i))])"
  using assms by (simp add: create_dummy_data_run)

theorem create_dummy_data_file_witness:
  "can_write empty_world ''out.csv''
   \<and> (\<exists>w' file. create_dummy_data stub_numpy ''out.csv'' empty_world = (Inr ''out.csv'', w')
     \<and> fs w' ''out.csv'' = Some file
     \<and> header_line file = ''Current_A,Voltage_V''
     \<and> length (records file) = 50
     \<and> records file ! 0 = [Some 0, Some 0]
     \<and> records file ! 7 = [Some (70 / 49), Some (350 / 49)]
     \<and> records file ! 49 = [Some 10, Some 50])"
proof -
  have ok: "can_write empty_world ''out.csv''" by (simp add: empty_world_can_write)
  obtain w' out where r: "create_dummy_data stub_numpy ''out.csv'' empty_world = (Inr ''out.csv'', w')"
      "fs w' ''out.csv'' = Some out" "header_line out = ''Current_A,Voltage_V''"
      "length (records out) = 50"
    and rows: "\<forall>i<50. records out ! i =
           [Some (real i * 10 / 49),
            if i = 5 \<or> i = 15 then None
            else Some (real i * 10 / 49 * 5
                       + (0 + 5 / 2 * fst (draw (np_random_gauss stub_numpy) 50
                                            (np_random_seed stub_numpy 42)) ! i))]"
    using create_dummy_data_file [OF ok, where np = stub_numpy] by blast
  have z: "fst (draw (np_random_gauss stub_numpy) 50 (np_random_seed stub_numpy 42)) ! i = 0"
    if "i < 50" for i
    using that by (simp add: stub_numpy_def draw_stub)
  have "records out ! 0 = [Some 0, Some 0]" using rows [rule_format, of 0] z [of 0] by simp
  moreover have "records out ! 7 = [Some (70 / 49), Some (350 / 49)]"
    using rows [rule_format, of 7] z [of 7] by simp
  moreover have "records out ! 49 = [Some 10, Some 50]"
    using rows [rule_format, of 49] z [of 49] by simp
  ultimately show ?thesis using ok r by blast
qed

text \<open>
  Claim C3 as stated has the whole voltage column equal to \<open>current * 5 + noise\<close>, at every
  output path. With a generator that draws 0 every time, record 5 of the file has no voltage
  where the claim has \<open>50 / 49 * 5 + 0\<close>; and at the empty path the call raises and writes
  no file.
\<close>

theorem voltage_column_counterexample:
  "records (the (fs (snd (create_dummy_data stub_numpy ''out.csv'' empty_world)) ''out.csv'')) ! 5
     = [Some (50 / 49), None]
   \<and> records (the (fs (snd (create_dummy_data stub_numpy ''out.csv'' empty_world)) ''out.csv'')) ! 5 ! 1
     \<noteq> Some (50 / 49 * 5 + (0 + 5 / 2 * 0))
   \<and> fst (create_dummy_data stub_numpy [] empty_world) = Inl (OSError [])
   \<and> fs (snd (create_dummy_data stub_numpy [] empty_world)) [] = None"
proof -
  have "can_write empty_world ''out.csv''" by (simp add: empty_world_can_write)
  then have "records (the (fs (snd (create_dummy_data stub_numpy ''out.csv'' empty_world))
      ''out.csv'')) ! 5 = [Some (50 / 49), None]"
    by (simp add: create_dummy_data_run)
  moreover have "\<not> can_write empty_world []" by (simp add: empty_world_can_write)
  then have "fst (create_dummy_data stub_numpy [] empty_world) = Inl (OSError [])"
    "fs (snd (create_dummy_data stub_numpy [] empty_world)) [] = None"
    by (simp_all add: create_dummy_data_unwritable) (simp add: empty_world_def)
  ultimately show ?thesis by simp
qed

text \<open>
  Claim C4: in the file the generator writes (at a path that can be written), read back as
  a table, the voltage is missing at the indices 5 and 15 and nowhere else, and no current
  is missing.
\<close>

theorem generated_missing_values:
  assumes "can_write w filename"
  shows "\<exists>w' out d current voltage.
      create_dummy_data np filename w = (Inr filename, w')
    \<and> fs w' filename = Some out
    \<and> parse_csv out = Inr d
    \<and> column_values d ''Current_A'' = Inr current
    \<and> column_values d ''Voltage_V'' = Inr voltage
    \<and> length current = 50 \<and> length voltage = 50
    \<and> (\<forall>i<50. (voltage ! i = None) = (i = 5 \<or> i = 15))
    \<and> (\<forall>i<50. current ! i \<noteq> None)"
proof -
  let ?rs = "map (\<lambda>i. [Some (real i * 10 / 49),
                           if i = 5 \<or> i = 15 then None
                           else Some (real i * 10 / 49 * 5
                             + (0 + 5 / 2 * fst (draw (np_random_gauss np) 50 (np_random_seed np 42)) ! i))])
                    [0..<50]"
  have "create_dummy_data np filename w = (Inr filename, snd (create_dummy_data np filename w))"
    using assms by (simp add: create_dummy_data_run)
  moreover note generated_file(1) [OF assms, of np] generated_file(2) [of np]
    two_column_values [of ?rs]
  moreover have "\<forall>i<50. (map (\<lambda>r. r ! 1) ?rs ! i = None) = (i = 5 \<or> i = 15)" by simp
  moreover have "\<forall>i<50. map (\<lambda>r. r ! 0) ?rs ! i \<noteq> None" by simp
  moreover have "length (map (\<lambda>r. r ! 0) ?rs) = 50" "length (map (\<lambda>r. r ! 1) ?rs) = 50" by simp_all
  ultimately show ?thesis by blast
qed

theorem generated_missing_values_witness:
  "can_write empty_world ''out.csv''
   \<and> (\<exists>w' out d current voltage.
      create_dummy_data stub_numpy ''out.csv'' empty_world = (Inr ''out.csv'', w')
    \<and> fs w' ''out.csv'' = Some out
    \<and> parse_csv out = Inr d
    \<and> column_values d ''Current_A'' = Inr current
    \<and> column_values d ''Voltage_V'' = Inr voltage
    \<and> voltage ! 5 = None \<and> voltage ! 15 = None \<and> voltage ! 6 \<noteq> None \<and> current ! 5 \<noteq> None)"
proof -
  have ok: "can_write empty_world ''out.csv''" by (simp add: empty_world_can_write)
  obtain w' out d current voltage where
    r: "create_dummy_data stub_numpy ''out.csv'' empty_world = (Inr ''out.csv'', w')"
      "fs w' ''out.csv'' = Some out" "parse_csv out = Inr d"
      "column_values d ''Current_A'' = Inr current" "column_values d ''Voltage_V'' = Inr voltage"
    and v: "\<forall>i<50. (voltage ! i = None) = (i = 5 \<or> i = 15)"
    and c: "\<forall>i<50. current ! i \<noteq> None"
    using generated_missing_values [OF ok, where np = stub_numpy] by blast
  have "voltage ! 5 = None" "voltage ! 15 = None" "voltage ! 6 \<noteq> None"
    using v [rule_format, of 5] v [rule_format, of 15] v [rule_format, of 6] by simp_all
  moreover have "current ! 5 \<noteq> None" using c [rule_format, of 5] by simp
  ultimately show ?thesis using ok r by blast
qed



subsection \<open>The cleaning step\<close>

text \<open>
  Claim C5: for every dataset loaded from a file, the cleaned dataset has no missing value
  and has as many rows as the loaded one minus its rows with a missing cell; the rest of
  \<^verbatim>\<open>process_and_analyze\<close> (extraction, statistics, plot) runs on the columns of the cleaned
  dataset, after the console has shown the shapes before and after cleaning; and the
  dataset the generator writes (at a path that can be written) has 50 rows, of which 48
  remain.
\<close>

theorem analysis_runs_on_cleaned_data:
  assumes "fs w filename = Some f" and "parse_csv f = Inr df"
  shows "\<not> isnull_values_any (dropna_frame df)
    \<and> length (rows (dropna_frame df))
        = length (rows df) - length (filter (\<lambda>r. \<not> complete r) (rows df))
    \<and> (\<exists>w1. process_and_analyze np filename w =
           bind_py (lift_py (column_values (dropna_frame df) ''Current_A'')) (\<lambda>current.
           bind_py (lift_py (column_values (dropna_frame df) ''Voltage_V'')) (\<lambda>voltage.
           bind_py (statistics np current voltage) (\<lambda>_. visualize np current voltage))) w1
         \<and> console w1 = console w @
             [[Str ''Loading data from '', Str filename, Str ''...''],
              [Str ''Raw data shape:'', Str '' '', Shape (shape df)]] @
             (if isnull_values_any df
              then [[Str ''Missing values detected. Dropping incomplete rows...'']] else []) @
             [[Str ''Cleaned data shape:'', Str '' '', Shape (shape (dropna_frame df))]])
    \<and> (can_write w0 name \<longrightarrow>
        (\<exists>g d. fs (snd (create_dummy_data np name w0)) name = Some g \<and> parse_csv g = Inr d
           \<and> length (rows d) = 50 \<and> length (rows (dropna_frame d)) = 48))"
proof -
  have "length (rows (dropna_frame df))
        = length (rows df) - length (filter (\<lambda>r. \<not> complete r) (rows df))"
    using dropna_count [of df] by simp
  moreover have "\<exists>g d. fs (snd (create_dummy_data np name w0)) name = Some g \<and> parse_csv g = Inr d
         \<and> length (rows d) = 50 \<and> length (rows (dropna_frame d)) = 48"
    if "can_write w0 name"
    using generated_file(1) [OF that, of np] generated_file(2,3,4) [of np]
    by (simp add: dropna_frame_def)
  moreover have "\<exists>w1. process_and_analyze np filename w =
           bind_py (lift_py (column_values (dropna_frame df) ''Current_A'')) (\<lambda>current.
           bind_py (lift_py (column_values (dropna_frame df) ''Voltage_V'')) (\<lambda>voltage.
           bind_py (statistics np current voltage) (\<lambda>_. visualize np current voltage))) w1
         \<and> console w1 = console w @
             [[Str ''Loading data from '', Str filename, Str ''...''],
              [Str ''Raw data shape:'', Str '' '', Shape (shape df)]] @
             (if isnull_values_any df
              then [[Str ''Missing values detected. Dropping incomplete rows...'']] else []) @
             [[Str ''Cleaned data shape:'', Str '' '', Shape (shape (dropna_frame df))]]"
    using process_loaded [OF assms, of np] by blast
  ultimately show ?thesis using dropna_no_null [of df] by blast
qed

theorem analysis_runs_on_cleaned_data_witness:
  "fs small_world ''data.csv'' = Some data_csv
   \<and> parse_csv data_csv = Inr \<lparr>columns = [''Current_A'', ''Voltage_V''],
          rows = [[Some 0, Some 1], [Some 1, None], [Some 2, Some 9]]\<rparr>
   \<and> \<not> isnull_values_any (dropna_frame \<lparr>columns = [''Current_A'', ''Voltage_V''],
          rows = [[Some 0, Some 1], [Some 1, None], [Some 2, Some 9]]\<rparr>)
   \<and> length (rows (dropna_frame \<lparr>columns = [''Current_A'', ''Voltage_V''],
          rows = [[Some 0, Some 1], [Some 1, None], [Some 2, Some 9]]\<rparr>)) = 3 - 1
   \<and> rows (dropna_frame \<lparr>columns = [''Current_A'', ''Voltage_V''],
          rows = [[Some 0, Some 1], [Some 1, None], [Some 2, Some 9]]\<rparr>)
       = [[Some 0, Some 1], [Some 2, Some 9]]
   \<and> can_write empty_world ''out.csv''
   \<and> (\<exists>g d. fs (snd (create_dummy_data stub_numpy ''out.csv'' empty_world)) ''out.csv'' = Some g
         \<and> parse_csv g = Inr d
         \<and> length (rows d) = 50 \<and> length (rows (dropna_frame d)) = 48)"
proof -
  have h1: "fs small_world ''data.csv'' = Some data_csv" by (simp add: small_world_simps)
  note h2 = data_csv_parse
  have h3: "can_write empty_world ''out.csv''" by (simp add: empty_world_can_write)
  note t = analysis_runs_on_cleaned_data [OF h1 h2, where np = stub_numpy
      and name = "''out.csv''" and ?w0.0 = empty_world]
  have "\<exists>g d. fs (snd (create_dummy_data stub_numpy ''out.csv'' empty_world)) ''out.csv'' = Some g
         \<and> parse_csv g = Inr d
         \<and> length (rows d) = 50 \<and> length (rows (dropna_frame d)) = 48"
    using t h3 by blast
  then show ?thesis
    using h1 h2 h3 t by (simp add: dropna_frame_def complete_def)
qed

text \<open>
  Claim C6: when the loaded dataset has no missing value, cleaning drops nothing: the
  analyzer prints the same shape before and after cleaning, creates no second DataFrame,
  and the one it loaded is the one it goes on with.
\<close>

theorem clean_data_keeps_every_row:
  assumes "fs w filename = Some f" and "parse_csv f = Inr df" and "\<not> isnull_values_any df"
  shows "dropna_frame df = df
    \<and> (\<exists>r w' ls. process_and_analyze np filename w = (r, w')
         \<and> console w' = console w @
             [[Str ''Loading data from '', Str filename, Str ''...''],
              [Str ''Raw data shape:'', Str '' '', Shape (shape df)],
              [Str ''Cleaned data shape:'', Str '' '', Shape (shape df)]] @ ls
         \<and> next_id w' = Suc (next_id w)
         \<and> frames w' (next_id w) = df)"
proof -
  have d: "dropna_frame df = df" using assms(3) by (rule dropna_clean)
  let ?T = "bind_py (lift_py (column_values (dropna_frame df) ''Current_A'')) (\<lambda>current.
       bind_py (lift_py (column_values (dropna_frame df) ''Voltage_V'')) (\<lambda>voltage.
       bind_py (statistics np current voltage) (\<lambda>_. visualize np current voltage)))"
  obtain w1 where p: "process_and_analyze np filename w = ?T w1"
    and w1: "console w1 = console w @
          [[Str ''Loading data from '', Str filename, Str ''...''],
           [Str ''Raw data shape:'', Str '' '', Shape (shape df)],
           [Str ''Cleaned data shape:'', Str '' '', Shape (shape df)]]"
      "frames w1 = (frames w)(next_id w := df)" "next_id w1 = Suc (next_id w)"
    using process_loaded [OF assms(1,2), of np] assms(3) d by auto
  obtain e w' ls where t: "?T w1 = (Inl e, w')"
    and w': "frames w' = frames w1" "next_id w' = next_id w1" "console w' = console w1 @ ls"
    using analysis_world [of "column_values (dropna_frame df) ''Current_A''"
        "column_values (dropna_frame df) ''Voltage_V''" np w1] by blast
  have "process_and_analyze np filename w = (Inl e, w')" using p t by simp
  moreover have "console w' = console w @
             [[Str ''Loading data from '', Str filename, Str ''...''],
              [Str ''Raw data shape:'', Str '' '', Shape (shape df)],
              [Str ''Cleaned data shape:'', Str '' '', Shape (shape df)]] @ ls"
    using w1 w' by simp
  moreover have "next_id w' = Suc (next_id w)" "frames w' (next_id w) = df"
    using w1 w' by simp_all
  ultimately show ?thesis using d by blast
qed

theorem clean_data_keeps_every_row_witness:
  "fs small_world ''clean.csv'' = Some clean_csv
   \<and> parse_csv clean_csv = Inr \<lparr>columns = [''Current_A'', ''Voltage_V''],
         rows = [[Some 0, Some 1], [Some 2, Some 9]]\<rparr>
   \<and> \<not> isnull_values_any \<lparr>columns = [''Current_A'', ''Voltage_V''],
         rows = [[Some 0, Some 1], [Some 2, Some 9]]\<rparr>
   \<and> (\<exists>r w' ls. process_and_analyze stub_numpy ''clean.csv'' small_world = (r, w')
        \<and> console w' =
             [[Str ''Loading data from '', Str ''clean.csv'', Str ''...''],
              [Str ''Raw data shape:'', Str '' '', Shape (2, 2)],
              [Str ''Cleaned data shape:'', Str '' '', Shape (2, 2)]] @ ls
        \<and> next_id w' = 2
        \<and> frames w' 1 = \<lparr>columns = [''Current_A'', ''Voltage_V''],
             rows = [[Some 0, Some 1], [Some 2, Some 9]]\<rparr>)"
proof -
  have h1: "fs small_world ''clean.csv'' = Some clean_csv" by (simp add: small_world_simps)
  note h2 = clean_csv_parse
  have h3: "\<not> isnull_values_any \<lparr>columns = [''Current_A'', ''Voltage_V''],
         rows = [[Some 0, Some 1], [Some 2, Some 9]]\<rparr>"
    by (simp add: isnull_values_any_def)
  show ?thesis
    using h1 h2 h3 clean_data_keeps_every_row [OF h1 h2 h3, of stub_numpy]
    by (simp add: small_world_simps shape_def numeral_2_eq_2)
qed

text \<open>
  Claim C8: the analyzer mutates nothing in place. After \<^verbatim>\<open>process_and_analyze\<close>, however
  it ends, every file is as before, every DataFrame object that existed before the call is
  as before, and the object the call loaded (at the first free address) still holds the
  records as loaded: cleaning made a new object.
\<close>

theorem analyzer_leaves_file_and_objects:
  "fs (snd (process_and_analyze np filename w)) = fs w
   \<and> (\<forall>a<next_id w. frames (snd (process_and_analyze np filename w)) a = frames w a)
   \<and> (\<forall>f df. fs w filename = Some f \<longrightarrow> parse_csv f = Inr df \<longrightarrow>
         frames (snd (process_and_analyze np filename w)) (next_id w) = df)"
  using process_world [of np filename w] by auto

theorem analyzer_leaves_file_and_objects_witness:
  "fs (snd (process_and_analyze stub_numpy ''data.csv'' small_world)) ''data.csv'' = Some data_csv
   \<and> frames (snd (process_and_analyze stub_numpy ''data.csv'' small_world)) 0
       = \<lparr>columns = [''Current_A'', ''Voltage_V''], rows = [[Some 4, None], [Some 5, Some 6]]\<rparr>
   \<and> frames (snd (process_and_analyze stub_numpy ''data.csv'' small_world)) 1
       = \<lparr>columns = [''Current_A'', ''Voltage_V''],
          rows = [[Some 0, Some 1], [Some 1, None], [Some 2, Some 9]]\<rparr>"
  using analyzer_leaves_file_and_objects [of stub_numpy "''data.csv''" small_world]
    data_csv_parse
  by (simp add: small_world_simps)

text \<open>
  Claim C10: cleaning keeps the surviving records in order and their values paired. The
  current and voltage arrays extracted after cleaning have the same length, their pairs
  form a subsequence of the pairs before cleaning, and they are exactly the pairs of the
  rows without a missing cell.
\<close>

theorem cleaning_keeps_order_and_pairs:
  assumes "column_values (frames w r) ''Current_A'' = Inr cur"
    and "column_values (frames w r) ''Voltage_V'' = Inr vol"
  shows "\<exists>r' w' cur' vol'. clean r w = (Inr r', w')
      \<and> getitem_values r' ''Current_A'' w' = (Inr cur', w')
      \<and> getitem_values r' ''Voltage_V'' w' = (Inr vol', w')
      \<and> length cur' = length vol'
      \<and> subseq (zip cur' vol') (zip cur vol)
      \<and> zip cur' vol'
          = map snd (filter (\<lambda>(row, p). complete row) (zip (rows (frames w r)) (zip cur vol)))"
proof -
  let ?df = "frames w r"
  let ?g = "\<lambda>r. r ! index_of ''Current_A'' (columns ?df)"
  let ?h = "\<lambda>r. r ! index_of ''Voltage_V'' (columns ?df)"
  let ?cur' = "map ?g (filter complete (rows ?df))"
  let ?vol' = "map ?h (filter complete (rows ?df))"
  have c: "column_values (dropna_frame ?df) ''Current_A'' = Inr ?cur'" "cur = map ?g (rows ?df)"
    using column_values_dropna [OF assms(1)] by simp_all
  have v: "column_values (dropna_frame ?df) ''Voltage_V'' = Inr ?vol'" "vol = map ?h (rows ?df)"
    using column_values_dropna [OF assms(2)] by simp_all
  obtain r' w' where run: "clean r w = (Inr r', w')" and fr: "frames w' r' = dropna_frame ?df"
    by (cases "isnull_values_any ?df") (simp_all add: clean_run dropna_clean)
  have "getitem_values r' ''Current_A'' w' = (Inr ?cur', w')"
    "getitem_values r' ''Voltage_V'' w' = (Inr ?vol', w')"
    using fr c v by (simp_all add: getitem_values_def)
  moreover have "length ?cur' = length ?vol'" by simp
  moreover have "subseq (zip ?cur' ?vol') (zip cur vol)"
    unfolding c(2) v(2) by (rule subseq_columns_filter)
  moreover have "zip ?cur' ?vol'
      = map snd (filter (\<lambda>(row, p). complete row) (zip (rows ?df) (zip cur vol)))"
    unfolding c(2) v(2) by (rule zip_columns_filter)
  ultimately show ?thesis using run by blast
qed

theorem cleaning_keeps_order_and_pairs_witness:
  "column_values (frames small_world 0) ''Current_A'' = Inr [Some 4, Some 5]
   \<and> column_values (frames small_world 0) ''Voltage_V'' = Inr [None, Some 6]
   \<and> (\<exists>r' w' cur' vol'. clean 0 small_world = (Inr r', w')
      \<and> getitem_values r' ''Current_A'' w' = (Inr cur', w')
      \<and> getitem_values r' ''Voltage_V'' w' = (Inr vol', w')
      \<and> length cur' = length vol'
      \<and> zip cur' vol' = [(Some 5, Some 6)])"
proof -
  have h1: "column_values (frames small_world 0) ''Current_A'' = Inr [Some 4, Some 5]"
    by (simp add: small_world_simps column_values_def)
  have h2: "column_values (frames small_world 0) ''Voltage_V'' = Inr [None, Some 6]"
    by (simp add: small_world_simps column_values_def)
  obtain r' w' cur' vol' where r: "clean 0 small_world = (Inr r', w')"
      "getitem_values r' ''Current_A'' w' = (Inr cur', w')"
      "getitem_values r' ''Voltage_V'' w' = (Inr vol', w')"
      "length cur' = length vol'"
    and z: "zip cur' vol' = map snd (filter (\<lambda>(row, p). complete row)
              (zip (rows (frames small_world 0)) (zip [Some 4, Some 5] [None, Some 6])))"
    using cleaning_keeps_order_and_pairs [OF h1 h2] by blast
  have "zip cur' vol' = [(Some 5, Some 6)]"
    using z by (simp add: small_world_simps complete_def)
  then show ?thesis using h1 h2 r by blast
qed

end
